theory Spec2Isabelle
  imports Main "HOL-Library.Sublist"
begin

section \<open>Seed script: TRL normalisation\<close>

text \<open>
  The type \<^verbatim>\<open>string | number | null | undefined\<close> of a raw TRL field. The only thing the
  script does with a number is \<^verbatim>\<open>String(value)\<close>, so a number is carried by that text.
  An absent key reads as \<^verbatim>\<open>undefined\<close>; the fields hold a \<open>trl_value option\<close> whose
  \<open>None\<close> is the absent key.
\<close>

datatype trl_value = TrlNull | TrlString string | TrlNumber string

fun String_of :: "trl_value \<Rightarrow> string" where
  "String_of TrlNull = ''null''"
| "String_of (TrlString s) = s"
| "String_of (TrlNumber t) = t"

definition is_digit :: "char \<Rightarrow> bool" where
  "is_digit c = (c \<in> set ''0123456789'')"

text \<open>
  \<^verbatim>\<open>str.match(/\d+/)\<close>: the regular expression is tried at every start position from the
  left; at a position it consumes digits greedily and succeeds when it has consumed one at
  least. \<open>None\<close> is the \<^verbatim>\<open>null\<close> of a failed match, \<open>Some m\<close> is \<^verbatim>\<open>match[0]\<close>.
\<close>

fun match_digits :: "string \<Rightarrow> string option" where
  "match_digits [] = None"
| "match_digits (c # cs) =
     (if is_digit c then Some (c # takeWhile is_digit cs) else match_digits cs)"

text \<open>
  \<^verbatim>\<open>toSingleTrl(value, defaultValue = "1")\<close>. The first argument is \<open>None\<close> for
  \<^verbatim>\<open>undefined\<close>; the second is \<open>None\<close> when the caller leaves the default.
\<close>

definition toSingleTrl :: "trl_value option \<Rightarrow> string option \<Rightarrow> string" where
  "toSingleTrl v defaultValue =
     (let d = (case defaultValue of None \<Rightarrow> ''1'' | Some d' \<Rightarrow> d') in
      case v of
        None \<Rightarrow> d
      | Some TrlNull \<Rightarrow> d
      | Some x \<Rightarrow> (case match_digits (String_of x) of Some m \<Rightarrow> m | None \<Rightarrow> d))"


subsection \<open>Nodes\<close>

text \<open>
  The interface \<^verbatim>\<open>RawNode\<close>. An optional key is an \<open>option\<close> (\<open>None\<close>: the key is not on
  the object, so \<^verbatim>\<open>"k" in node\<close> is false and \<^verbatim>\<open>node.k\<close> is \<^verbatim>\<open>undefined\<close>). The index
  signature \<^verbatim>\<open>[key: string]: unknown\<close> is the list \<open>extra\<close> of further keys, each with its
  value as JSON text.
\<close>

record raw_node =
  node_id :: string
  label :: string
  node_type :: string
  category :: string
  trl_current :: "trl_value option"
  trl_projected_5_10_years :: "trl_value option"
  description :: "string option"
  references :: "string list option"
  extra :: "(string \<times> string) list"

text \<open>\<^verbatim>\<open>Object.keys(node)\<close>.\<close>

definition node_keys :: "raw_node \<Rightarrow> string list" where
  "node_keys n =
     [''id'', ''label'', ''type'', ''category'']
     @ (if trl_current n \<noteq> None then [''trl_current''] else [])
     @ (if trl_projected_5_10_years n \<noteq> None then [''trl_projected_5_10_years''] else [])
     @ (if description n \<noteq> None then [''description''] else [])
     @ (if references n \<noteq> None then [''references''] else [])
     @ map fst (extra n)"

definition unexpectedKeys :: "raw_node \<Rightarrow> string list" where
  "unexpectedKeys n =
     filter (\<lambda>k. prefix ''trl_projected'' k \<and> k \<noteq> ''trl_projected_5_10_years'') (node_keys n)"

text \<open>The callback of \<^verbatim>\<open>nodes.map\<close> in \<^verbatim>\<open>normalizeNodes\<close>: a copy of the node, updated.\<close>

definition normalizeNode :: "raw_node \<Rightarrow> raw_node" where
  "normalizeNode n =
     (let updated = n\<lparr>trl_current := Some (TrlString (toSingleTrl (trl_current n) (Some ''1'')))\<rparr>
      in if trl_projected_5_10_years n \<noteq> None
         then updated\<lparr>trl_projected_5_10_years :=
                Some (TrlString (toSingleTrl (trl_projected_5_10_years n) None))\<rparr>
         else updated)"

text \<open>
  \<^verbatim>\<open>normalizeNodes\<close> returns the normalised nodes; the second component is \<^verbatim>\<open>badNodes\<close>,
  which the function only prints.
\<close>

definition normalizeNodes :: "raw_node list \<Rightarrow> raw_node list \<times> string list" where
  "normalizeNodes ns =
     (map normalizeNode ns,
      map node_id (filter (\<lambda>n. length (unexpectedKeys n) > 0) ns))"

subsection \<open>Edges\<close>

text \<open>
  \<^verbatim>\<open>RawEdge\<close>, the union of the single-target and the multi-target form. The code tells
  them apart by the keys on the object, so each key is an \<open>option\<close>. \<open>raw_source = None\<close> is
  a record without source; \<open>raw_targets = None\<close> is a record whose \<^verbatim>\<open>targets\<close> key is absent
  or holds no array (the script always tests \<^verbatim>\<open>"targets" in edge\<close> and
  \<^verbatim>\<open>Array.isArray\<close> together).
\<close>

record raw_edge =
  raw_source :: "string option"
  raw_target :: "string option"
  raw_targets :: "string list option"

text \<open>\<^verbatim>\<open>NormalizedEdge\<close>; the edges the component draws have the same three fields.\<close>

record edge =
  edge_id :: string
  source :: string
  target :: string

record ('n, 'e) tech_tree_graph =
  nodes :: "'n list"
  edges :: "'e list"

record ('n, 'e) tech_tree_data =
  graph :: "('n, 'e) tech_tree_graph"

text \<open>The template \<^verbatim>\<open>`edge_src_${sourceId}_tgt_${targetId}`\<close> and the object pushed.\<close>

definition make_edge :: "string \<Rightarrow> string \<Rightarrow> edge" where
  "make_edge sourceId targetId =
     \<lparr>edge_id = ''edge_src_'' @ sourceId @ ''_tgt_'' @ targetId,
      source = sourceId, target = targetId\<rparr>"

text \<open>Body of the first loop: the expected count.\<close>

definition count_step :: "raw_edge \<Rightarrow> nat \<Rightarrow> nat" where
  "count_step e expectedEdgeCount =
     (if raw_target e \<noteq> None then expectedEdgeCount + 1
      else case raw_targets e of
             Some ts \<Rightarrow> expectedEdgeCount + length ts
           | None \<Rightarrow> expectedEdgeCount)"

text \<open>
  Body of the second loop. \<^verbatim>\<open>!sourceId\<close> holds for an absent source and for the empty
  string.
\<close>

definition push_step :: "raw_edge \<Rightarrow> edge list \<Rightarrow> edge list" where
  "push_step e normalizedEdges =
     (case raw_source e of
        None \<Rightarrow> normalizedEdges
      | Some sourceId \<Rightarrow>
          if sourceId = [] then normalizedEdges
          else (case raw_target e of
                  Some targetId \<Rightarrow> normalizedEdges @ [make_edge sourceId targetId]
                | None \<Rightarrow>
                    (case raw_targets e of
                       Some ts \<Rightarrow>
                         fold (\<lambda>targetId acc. acc @ [make_edge sourceId targetId]) ts normalizedEdges
                     | None \<Rightarrow> normalizedEdges)))"

definition normalizeTechTreeEdges ::
  "(raw_node, raw_edge) tech_tree_data \<Rightarrow> (raw_node, edge) tech_tree_data \<times> nat" where
  "normalizeTechTreeEdges treeData =
     (let originalEdges = edges (graph treeData);
          expectedEdgeCount = fold count_step originalEdges 0;
          normalizedEdges = fold push_step originalEdges []
      in (\<lparr>graph = \<lparr>nodes = nodes (graph treeData), edges = normalizedEdges\<rparr>\<rparr>,
          expectedEdgeCount))"

subsection \<open>Sanity checks\<close>

datatype error =
    FileNotFound
  | MalformedSource
  | EdgeSanityCheckFailed nat nat
  | ReferenceSanityCheckFailed "string list"
  | MongoUriNotSet
  | InvalidMongoUri
  | ClientCloseFailed

definition runEdgeSanityCheck :: "nat \<Rightarrow> nat \<Rightarrow> error + unit" where
  "runEdgeSanityCheck actualCount expectedCount =
     (if actualCount \<noteq> expectedCount
      then Inl (EdgeSanityCheckFailed expectedCount actualCount)
      else Inr ())"

definition runReferenceSanityCheck :: "raw_node list \<Rightarrow> error + unit" where
  "runReferenceSanityCheck ns =
     (let missing =
            map node_id
              (filter (\<lambda>n. case references n of None \<Rightarrow> True | Some rs \<Rightarrow> length rs = 0) ns)
      in if length missing > 0 then Inl (ReferenceSanityCheckFailed missing) else Inr ())"

text \<open>A JavaScript \<^verbatim>\<open>Set\<close> of strings: its elements in insertion order.\<close>

definition set_add :: "string \<Rightarrow> string list \<Rightarrow> string list" where
  "set_add x s = (if x \<in> set s then s else s @ [x])"

text \<open>
  \<^verbatim>\<open>runIdConsistencyCheck\<close> returns nothing; the pair is what it prints:
  \<^verbatim>\<open>missingInNodes\<close> and \<^verbatim>\<open>isolatedNodes\<close>.
\<close>

definition runIdConsistencyCheck :: "raw_node list \<Rightarrow> edge list \<Rightarrow> string list \<times> string list" where
  "runIdConsistencyCheck ns es =
     (let nodeIds = fold set_add (map node_id ns) [];
          edgeEndpointIds = fold (\<lambda>e s. set_add (target e) (set_add (source e) s)) es [];
          missingInNodes = filter (\<lambda>i. i \<notin> set nodeIds) edgeEndpointIds;
          isolatedNodes = filter (\<lambda>i. i \<notin> set edgeEndpointIds) nodeIds
      in (missingInNodes, isolatedNodes))"

subsection \<open>The seeding run\<close>

text \<open>
  What \<^verbatim>\<open>main\<close> reads from outside: the JSON file (missing, unreadable as a tech tree, or
  parsed), the variable \<^verbatim>\<open>MONGODB_URI\<close>, and the behaviour of the database driver: whether
  \<^verbatim>\<open>new MongoClient(mongoUri)\<close> accepts the connection string, and which of the awaited
  client calls reject.
\<close>

datatype file_state = Missing | Malformed | Parsed "(raw_node, raw_edge) tech_tree_data"

datatype client_call =
    Connect
  | Ping
  | DeleteManyNodes
  | DeleteManyEdges
  | InsertManyNodes "raw_node list"
  | InsertManyEdges "edge list"
  | Close

record environment =
  json_file :: file_state
  MONGODB_URI :: "string option"
  uri_accepted :: bool
  rejects :: "client_call \<Rightarrow> bool"

fun is_write :: "client_call \<Rightarrow> bool" where
  "is_write Connect = False"
| "is_write Ping = False"
| "is_write Close = False"
| "is_write _ = True"

text \<open>
  What a run does: the error \<^verbatim>\<open>main\<close> throws (if any), whether the \<^verbatim>\<open>catch\<close> block set
  \<^verbatim>\<open>process.exitCode = 1\<close>, the client calls issued in order, and the two lists of the
  ID consistency check when it was reached.
\<close>

record run =
  thrown :: "error option"
  exitCode :: "nat option"
  issued :: "client_call list"
  id_warnings :: "(string list \<times> string list) option"

definition writes :: "run \<Rightarrow> client_call list" where
  "writes r = filter is_write (issued r)"

definition abort :: "error \<Rightarrow> (string list \<times> string list) option \<Rightarrow> run" where
  "abort e w = \<lparr>thrown = Some e, exitCode = None, issued = [], id_warnings = w\<rparr>"

text \<open>The calls the \<^verbatim>\<open>try\<close> block awaits when none rejects.\<close>

definition seed_calls :: "raw_node list \<Rightarrow> edge list \<Rightarrow> client_call list" where
  "seed_calls finalNodes finalEdges =
     [Connect, Ping, DeleteManyNodes, DeleteManyEdges]
     @ (if length finalNodes > 0 then [InsertManyNodes finalNodes] else [])
     @ (if length finalEdges > 0 then [InsertManyEdges finalEdges] else [])"

text \<open>
  Awaiting calls in order: the first one that rejects ends the \<^verbatim>\<open>try\<close> block. The result
  is the calls issued and whether the \<^verbatim>\<open>catch\<close> block ran.
\<close>

fun await_calls :: "(client_call \<Rightarrow> bool) \<Rightarrow> client_call list \<Rightarrow> client_call list \<times> bool" where
  "await_calls rej [] = ([], False)"
| "await_calls rej (c # cs) =
     (if rej c then ([c], True)
      else (case await_calls rej cs of (done, failed) \<Rightarrow> (c # done, failed)))"

text \<open>
  \<^verbatim>\<open>main\<close>. Every \<^verbatim>\<open>throw\<close> before the \<^verbatim>\<open>try\<close> block ends the run; inside it a rejected
  call is caught, and the \<^verbatim>\<open>finally\<close> block closes the client, which can reject in turn.
\<close>

definition main :: "environment \<Rightarrow> run" where
  "main env =
     (case json_file env of
        Missing \<Rightarrow> abort FileNotFound None
      | Malformed \<Rightarrow> abort MalformedSource None
      | Parsed techTree \<Rightarrow>
          (let techTree' =
                 \<lparr>graph = \<lparr>nodes = fst (normalizeNodes (nodes (graph techTree))),
                            edges = edges (graph techTree)\<rparr>\<rparr>;
               (normalizedData, expectedEdgeCount) = normalizeTechTreeEdges techTree';
               finalEdges = edges (graph normalizedData);
               finalNodes = nodes (graph normalizedData)
           in case runEdgeSanityCheck (length finalEdges) expectedEdgeCount of
                Inl e \<Rightarrow> abort e None
              | Inr _ \<Rightarrow>
                  (case runReferenceSanityCheck finalNodes of
                     Inl e \<Rightarrow> abort e None
                   | Inr _ \<Rightarrow>
                       (let w = Some (runIdConsistencyCheck finalNodes finalEdges) in
                        case MONGODB_URI env of
                          None \<Rightarrow> abort MongoUriNotSet w
                        | Some mongoUri \<Rightarrow>
                            if mongoUri = [] then abort MongoUriNotSet w
                            else if \<not> uri_accepted env then abort InvalidMongoUri w
                            else (let (cs, failed) =
                                        await_calls (rejects env) (seed_calls finalNodes finalEdges)
                                  in \<lparr>thrown = (if rejects env Close then Some ClientCloseFailed
                                                 else None),
                                      exitCode = (if failed then Some 1 else None),
                                      issued = cs @ [Close],
                                      id_warnings = w\<rparr>)))))"

section \<open>The tech tree component\<close>

text \<open>
  Modelled from the spec: the type \<^verbatim>\<open>UiNode\<close> of the types module, which is not among the
  sources at hand. A node has an identifier and a category that may be absent; these are
  the two fields the component reads (\<^verbatim>\<open>node.id\<close>, \<^verbatim>\<open>node.data.category\<close>). An absent
  category never equals a selected category.
\<close>

record ui_node =
  ui_id :: string
  data_category :: "string option"

text \<open>
  Modelled from the spec: the type \<^verbatim>\<open>GroupingMode\<close> of the types module, which the spec
  gives as the enumeration \<^verbatim>\<open>None\<close> or \<^verbatim>\<open>Category\<close>.
\<close>

datatype GroupingMode = GroupNone | GroupCategory

text \<open>
  Modelled from the spec: the type \<^verbatim>\<open>HighlightedElements\<close> of the types module, a set of
  node identifiers and a set of edge identifiers. Each is a JavaScript \<^verbatim>\<open>Set\<close>, kept as its
  elements in insertion order.
\<close>

record HighlightedElements =
  nodeIds :: "string list"
  edgeIds :: "string list"

text \<open>The body of \<^verbatim>\<open>allEdges.forEach\<close> in \<^verbatim>\<open>findConnectedElements\<close>.\<close>

definition connect_step :: "string \<Rightarrow> edge \<Rightarrow> HighlightedElements \<Rightarrow> HighlightedElements" where
  "connect_step nodeId e acc =
     (if source e = nodeId \<or> target e = nodeId then
        (let connectedEdgeIds = set_add (edge_id e) (edgeIds acc);
             ns1 = (if source e = nodeId then set_add (target e) (nodeIds acc) else nodeIds acc);
             ns2 = (if target e = nodeId then set_add (source e) ns1 else ns1)
         in \<lparr>nodeIds = ns2, edgeIds = connectedEdgeIds\<rparr>)
      else acc)"

definition findConnectedElements :: "string \<Rightarrow> edge list \<Rightarrow> HighlightedElements" where
  "findConnectedElements nodeId allEdges =
     fold (connect_step nodeId) allEdges \<lparr>nodeIds = set_add nodeId [], edgeIds = []\<rparr>"

text \<open>The category filter at the head of \<^verbatim>\<open>loadLayout\<close>: the value of \<^verbatim>\<open>filteredTechTree\<close>.\<close>

definition filteredTechTree ::
  "string \<Rightarrow> (ui_node, edge) tech_tree_graph \<Rightarrow> (ui_node, edge) tech_tree_graph" where
  "filteredTechTree selectedCategory techTree =
     (if selectedCategory \<noteq> ''All'' then
        \<lparr>nodes = filter (\<lambda>node. data_category node = Some selectedCategory) (nodes techTree),
         edges = filter
           (\<lambda>e.
              (let sourceExists =
                     list_ex (\<lambda>n. ui_id n = source e \<and> data_category n = Some selectedCategory)
                       (nodes techTree);
                   targetExists =
                     list_ex (\<lambda>n. ui_id n = target e \<and> data_category n = Some selectedCategory)
                       (nodes techTree)
               in sourceExists \<and> targetExists))
           (edges techTree)\<rparr>
      else techTree)"

subsection \<open>View state and its handlers\<close>

text \<open>
  The \<^verbatim>\<open>useState\<close> cells of the component. A handler's \<^verbatim>\<open>set...\<close> calls take effect together
  at the next render, so a handler is a function from the state to the next state.
\<close>

record view_state =
  isLoading :: bool
  st_nodes :: "ui_node list"
  st_edges :: "edge list"
  selectedNode :: "ui_node option"
  highlightedElements :: HighlightedElements
  groupingMode :: GroupingMode
  showingRelatedNodes :: "string option"
  showOnlyConnected :: bool
  searchInput :: string
  searchTerm :: string
  isEditing :: bool
  isPanelExpanded :: bool
  showLegend :: bool
  showOptions :: bool
  selectedCategory :: string

definition no_highlight :: HighlightedElements where
  "no_highlight = \<lparr>nodeIds = [], edgeIds = []\<rparr>"

text \<open>The category selector calls \<^verbatim>\<open>setSelectedCategory\<close> with the chosen value.\<close>

definition setSelectedCategory :: "string \<Rightarrow> view_state \<Rightarrow> view_state" where
  "setSelectedCategory c s = s\<lparr>selectedCategory := c\<rparr>"

text \<open>\<^verbatim>\<open>innerWidth\<close> is \<^verbatim>\<open>window.innerWidth\<close> at the time of the click.\<close>

definition handleShowDetails :: "nat \<Rightarrow> string \<Rightarrow> view_state \<Rightarrow> view_state" where
  "handleShowDetails innerWidth nodeId s =
     (case find (\<lambda>n. ui_id n = nodeId) (st_nodes s) of
        Some node \<Rightarrow>
          (let s1 = s\<lparr>selectedNode := Some node,
                       highlightedElements := findConnectedElements nodeId (st_edges s)\<rparr>
           in if innerWidth < 768 then s1\<lparr>isPanelExpanded := True\<rparr> else s1)
      | None \<Rightarrow> s)"

definition handleShowConnected :: "string \<Rightarrow> view_state \<Rightarrow> view_state" where
  "handleShowConnected nodeId s =
     (case find (\<lambda>n. ui_id n = nodeId) (st_nodes s) of
        Some node \<Rightarrow>
          s\<lparr>selectedNode := Some node,
            showingRelatedNodes := Some nodeId,
            showOnlyConnected := True,
            searchInput := [],
            searchTerm := [],
            highlightedElements := no_highlight\<rparr>
      | None \<Rightarrow> s)"

definition handleGroupingModeChange :: "GroupingMode \<Rightarrow> view_state \<Rightarrow> view_state" where
  "handleGroupingModeChange mode s =
     s\<lparr>groupingMode := mode,
       selectedNode := None,
       showingRelatedNodes := None,
       showOnlyConnected := False,
       highlightedElements := no_highlight\<rparr>"

definition handleReset :: "view_state \<Rightarrow> view_state" where
  "handleReset s =
     s\<lparr>selectedNode := None,
       showingRelatedNodes := None,
       showOnlyConnected := False,
       searchInput := [],
       searchTerm := [],
       selectedCategory := ''All'',
       highlightedElements := no_highlight\<rparr>"

definition handleSearchChange :: "string \<Rightarrow> view_state \<Rightarrow> view_state" where
  "handleSearchChange v s =
     s\<lparr>searchInput := v,
       selectedNode := None,
       showingRelatedNodes := None,
       showOnlyConnected := False,
       highlightedElements := no_highlight\<rparr>"

text \<open>The effect that runs after a render: \<^verbatim>\<open>setSearchTerm(searchInput)\<close>.\<close>

definition syncSearchTerm :: "view_state \<Rightarrow> view_state" where
  "syncSearchTerm s = s\<lparr>searchTerm := searchInput s\<rparr>"

text \<open>
  The edit-mode handlers. \<open>adminPassword\<close> is the configured password (\<open>None\<close>: not
  configured), \<open>password\<close> the answer to the prompt (\<open>None\<close>: cancelled), \<open>confirmed\<close> the
  answer to the confirmation dialog.
\<close>

definition handleEnterEditMode :: "string option \<Rightarrow> string option \<Rightarrow> view_state \<Rightarrow> view_state" where
  "handleEnterEditMode adminPassword password s =
     (if password \<noteq> None \<and> password = adminPassword then s\<lparr>isEditing := True\<rparr> else s)"

definition handleExitEditMode :: "bool \<Rightarrow> view_state \<Rightarrow> view_state" where
  "handleExitEditMode confirmed s = (if confirmed then s\<lparr>isEditing := False\<rparr> else s)"

section \<open>Vocabulary of the properties and example data\<close>

text \<open>\<^verbatim>\<open>!sourceId\<close>: the record has no source, or an empty one.\<close>

definition no_source :: "raw_edge \<Rightarrow> bool" where
  "no_source e = (raw_source e = None \<or> raw_source e = Some [])"

text \<open>
  The ordered pairs a record lists when it has a source: its single target, or else each
  of its targets.
\<close>

definition listed_pairs :: "raw_edge \<Rightarrow> (string \<times> string) list" where
  "listed_pairs e =
     (case raw_source e of
        None \<Rightarrow> []
      | Some s \<Rightarrow>
          if s = [] then []
          else (case raw_target e of
                  Some t \<Rightarrow> [(s, t)]
                | None \<Rightarrow> (case raw_targets e of Some ts \<Rightarrow> map (Pair s) ts | None \<Rightarrow> [])))"

text \<open>Three single-target records and one record with three targets.\<close>

definition ex_records :: "raw_edge list" where
  "ex_records =
     [\<lparr>raw_source = Some ''a'', raw_target = Some ''b'', raw_targets = None\<rparr>,
      \<lparr>raw_source = Some ''b'', raw_target = Some ''c'', raw_targets = None\<rparr>,
      \<lparr>raw_source = Some ''c'', raw_target = Some ''d'', raw_targets = None\<rparr>,
      \<lparr>raw_source = Some ''d'', raw_target = None, raw_targets = Some [''e'', ''f'', ''g'']\<rparr>]"

text \<open>The same, followed by a record that has two targets and no source.\<close>

definition ex_records_sourceless :: "raw_edge list" where
  "ex_records_sourceless =
     ex_records @ [\<lparr>raw_source = None, raw_target = None, raw_targets = Some [''x'', ''y'']\<rparr>]"

text \<open>The pair \<open>(a, b)\<close> listed twice: once alone, once among several targets.\<close>

definition ex_parallel :: "raw_edge list" where
  "ex_parallel =
     [\<lparr>raw_source = Some ''a'', raw_target = Some ''b'', raw_targets = None\<rparr>,
      \<lparr>raw_source = Some ''a'', raw_target = None, raw_targets = Some [''b'', ''c'']\<rparr>]"

text \<open>Two nodes: one with both TRL fields as free text and number, one with neither.\<close>

definition ex_nodes :: "raw_node list" where
  "ex_nodes =
     [\<lparr>node_id = ''n1'', label = ''Reactor'', node_type = ''tech'', category = ''fission'',
       trl_current = Some (TrlString ''7-9 (LWRs); 4-6''),
       trl_projected_5_10_years = Some (TrlNumber ''8''),
       description = None, references = Some [''r1''], extra = []\<rparr>,
      \<lparr>node_id = ''n2'', label = ''Fuel'', node_type = ''tech'', category = ''fission'',
       trl_current = None, trl_projected_5_10_years = None,
       description = None, references = Some [''r2''], extra = []\<rparr>]"

text \<open>\<^verbatim>\<open>!n.references || n.references.length === 0\<close>, as a predicate on nodes.\<close>

definition missing_references :: "raw_node \<Rightarrow> bool" where
  "missing_references n = (references n = None \<or> references n = Some [])"

text \<open>A node with the given identifier and reference list.\<close>

definition ex_node :: "string \<Rightarrow> string list option \<Rightarrow> raw_node" where
  "ex_node i refs =
     \<lparr>node_id = i, label = i, node_type = ''tech'', category = ''c'',
      trl_current = None, trl_projected_5_10_years = None,
      description = None, references = refs, extra = []\<rparr>"

text \<open>
  A source with no fatal finding, one dangling endpoint (\<open>Z\<close>) and one isolated node
  (\<open>C\<close>); one whose nodes \<open>B\<close> and \<open>C\<close> lack references; one with a record that has no
  source; and the environment of a run on a parsed source with a working database.
\<close>

definition ex_tree :: "(raw_node, raw_edge) tech_tree_data" where
  "ex_tree =
     \<lparr>graph =
        \<lparr>nodes = [ex_node ''A'' (Some [''r1'']), ex_node ''B'' (Some [''r2'']),
                  ex_node ''C'' (Some [''r3''])],
         edges = [\<lparr>raw_source = Some ''A'', raw_target = None, raw_targets = Some [''B'', ''Z'']\<rparr>]\<rparr>\<rparr>"

definition ex_tree_no_refs :: "(raw_node, raw_edge) tech_tree_data" where
  "ex_tree_no_refs =
     \<lparr>graph =
        \<lparr>nodes = [ex_node ''A'' (Some [''r1'']), ex_node ''B'' (Some []), ex_node ''C'' None],
         edges = [\<lparr>raw_source = Some ''A'', raw_target = Some ''B'', raw_targets = None\<rparr>]\<rparr>\<rparr>"

definition ex_tree_no_source :: "(raw_node, raw_edge) tech_tree_data" where
  "ex_tree_no_source =
     \<lparr>graph =
        \<lparr>nodes = [ex_node ''A'' (Some [''r1''])],
         edges = [\<lparr>raw_source = None, raw_target = Some ''A'', raw_targets = None\<rparr>]\<rparr>\<rparr>"

definition ex_env :: "(raw_node, raw_edge) tech_tree_data \<Rightarrow> environment" where
  "ex_env t =
     \<lparr>json_file = Parsed t, MONGODB_URI = Some ''mongodb://db'', uri_accepted = True,
      rejects = (\<lambda>c. False)\<rparr>"

text \<open>Edges \<open>X \<rightarrow> Y\<close>, \<open>Z \<rightarrow> X\<close> and \<open>Y \<rightarrow> Z\<close>.\<close>

definition ex_edges :: "edge list" where
  "ex_edges =
     [\<lparr>edge_id = ''e1'', source = ''X'', target = ''Y''\<rparr>,
      \<lparr>edge_id = ''e2'', source = ''Z'', target = ''X''\<rparr>,
      \<lparr>edge_id = ''e3'', source = ''Y'', target = ''Z''\<rparr>]"

text \<open>Nodes \<open>A\<close> and \<open>B\<close> of category \<open>cat1\<close>, \<open>C\<close> of \<open>cat2\<close>, and the edge \<open>A \<rightarrow> C\<close>.\<close>

definition ex_graph :: "(ui_node, edge) tech_tree_graph" where
  "ex_graph =
     \<lparr>nodes = [\<lparr>ui_id = ''A'', data_category = Some ''cat1''\<rparr>,
               \<lparr>ui_id = ''B'', data_category = Some ''cat1''\<rparr>,
               \<lparr>ui_id = ''C'', data_category = Some ''cat2''\<rparr>],
      edges = [\<lparr>edge_id = ''ac'', source = ''A'', target = ''C''\<rparr>]\<rparr>"

text \<open>A view state with an active search and category filter and nothing selected.\<close>

definition ex_state :: view_state where
  "ex_state =
     \<lparr>isLoading = False,
      st_nodes = [\<lparr>ui_id = ''X'', data_category = Some ''cat1''\<rparr>,
                  \<lparr>ui_id = ''Y'', data_category = Some ''cat1''\<rparr>],
      st_edges = [\<lparr>edge_id = ''e1'', source = ''X'', target = ''Y''\<rparr>],
      selectedNode = None,
      highlightedElements = no_highlight,
      groupingMode = GroupNone,
      showingRelatedNodes = None,
      showOnlyConnected = False,
      searchInput = ''fusion'',
      searchTerm = ''fusion'',
      isEditing = False,
      isPanelExpanded = True,
      showLegend = False,
      showOptions = False,
      selectedCategory = ''cat1''\<rparr>"

text \<open>The same after showing the details of \<open>X\<close>, and after then showing its connections.\<close>

definition ex_selected :: view_state where
  "ex_selected = handleShowDetails 1024 ''X'' ex_state"

definition ex_connected :: view_state where
  "ex_connected = handleShowConnected ''X'' (handleShowDetails 1024 ''X'' ex_state)"

section \<open>Properties of the TRL normaliser\<close>

lemma match_digits_none: "(\<forall>c \<in> set s. \<not> is_digit c) \<Longrightarrow> match_digits s = None"
  by (induction s) auto

lemma match_digits_some:
  "(\<exists>c \<in> set s. is_digit c) \<Longrightarrow>
     match_digits s = Some (takeWhile is_digit (dropWhile (\<lambda>c. \<not> is_digit c) s))"
  by (induction s) auto

lemma first_run_decomposition:
  assumes "\<forall>c \<in> set pre. \<not> is_digit c" "run \<noteq> []" "\<forall>c \<in> set run. is_digit c"
    "post = [] \<or> \<not> is_digit (hd post)"
  shows "takeWhile is_digit (dropWhile (\<lambda>c. \<not> is_digit c) (pre @ run @ post)) = run"
proof -
  have "dropWhile (\<lambda>c. \<not> is_digit c) (pre @ run @ post) = run @ post"
    using assms(1,2,3) by (cases run) (auto simp: dropWhile_append)
  moreover have "takeWhile is_digit (run @ post) = run"
    using assms(3,4) by (cases post) (auto simp: takeWhile_append)
  ultimately show ?thesis by simp
qed

text \<open>
  C2. When the textual form of the raw value contains a digit, \<open>toSingleTrl\<close> returns its
  first maximal run of digits: the digits that follow the longest digit-free prefix, up to
  the next non-digit or the end. Said without \<open>takeWhile\<close>: if the text is \<open>pre @ run @ post\<close>
  with no digit in \<open>pre\<close>, \<open>run\<close> a non-empty string of digits and \<open>post\<close> empty or starting
  with a non-digit, the result is \<open>run\<close>. When the text has no digit, or the value is
  \<^verbatim>\<open>null\<close> or \<^verbatim>\<open>undefined\<close>, the result is the default, which is \<^verbatim>\<open>"1"\<close> when the caller
  passes none.
\<close>

theorem toSingleTrl_first_digit_run:
  "((\<exists>c \<in> set (String_of v). is_digit c) \<longrightarrow>
      toSingleTrl (Some v) dflt
        = takeWhile is_digit (dropWhile (\<lambda>c. \<not> is_digit c) (String_of v)))
   \<and> ((\<forall>c \<in> set pre. \<not> is_digit c) \<and> run \<noteq> [] \<and> (\<forall>c \<in> set run. is_digit c)
        \<and> (post = [] \<or> \<not> is_digit (hd post)) \<and> String_of v = pre @ run @ post \<longrightarrow>
      toSingleTrl (Some v) dflt = run)
   \<and> ((\<forall>c \<in> set (String_of v). \<not> is_digit c) \<longrightarrow> toSingleTrl (Some v) None = ''1'')
   \<and> toSingleTrl (Some TrlNull) None = ''1''
   \<and> toSingleTrl None None = ''1''"
proof -
  have digits: "toSingleTrl (Some v) dflt
        = takeWhile is_digit (dropWhile (\<lambda>c. \<not> is_digit c) (String_of v))"
    if h: "\<exists>c \<in> set (String_of v). is_digit c"
  proof (cases v)
    case TrlNull
    with h show ?thesis by (simp add: is_digit_def)
  next
    case (TrlString s)
    with h show ?thesis by (simp add: toSingleTrl_def match_digits_some)
  next
    case (TrlNumber t)
    with h show ?thesis by (simp add: toSingleTrl_def match_digits_some)
  qed
  have run: "toSingleTrl (Some v) dflt = run"
    if h: "\<forall>c \<in> set pre. \<not> is_digit c" "run \<noteq> []" "\<forall>c \<in> set run. is_digit c"
      "post = [] \<or> \<not> is_digit (hd post)" "String_of v = pre @ run @ post"
  proof -
    from h(2,3) obtain c where "c \<in> set run" "is_digit c" by (cases run) auto
    with h(5) have "\<exists>c \<in> set (String_of v). is_digit c" by auto
    from digits[OF this] show ?thesis
      using first_run_decomposition[OF h(1-4)] h(5) by simp
  qed
  have nodigit: "toSingleTrl (Some v) None = ''1''" if "\<forall>c \<in> set (String_of v). \<not> is_digit c"
    using that by (cases v) (simp_all add: toSingleTrl_def match_digits_none)
  show ?thesis using digits run nodigit by (simp add: toSingleTrl_def)
qed

theorem toSingleTrl_first_digit_run_witness:
  "toSingleTrl (Some (TrlString ''7-9 (LWRs); 4-6'')) None = ''7''
   \<and> toSingleTrl (Some (TrlString ''TRL 12a3'')) None = ''12''
   \<and> toSingleTrl (Some (TrlNumber ''4.5'')) None = ''4''
   \<and> toSingleTrl (Some (TrlString ''n/a'')) None = ''1''"
  using toSingleTrl_first_digit_run [of "TrlString ''7-9 (LWRs); 4-6''" None "[]" "''7''" "''-9 (LWRs); 4-6''"]
    toSingleTrl_first_digit_run [of "TrlString ''TRL 12a3''" None "''TRL ''" "''12''" "''a3''"]
    toSingleTrl_first_digit_run [of "TrlNumber ''4.5''" None "[]" "''4''" "''.5''"]
    toSingleTrl_first_digit_run [of "TrlString ''n/a''" None "[]" "[]" "[]"]
  by (simp add: is_digit_def)

section \<open>Properties of the edge normaliser\<close>

lemma normalize_edges:
  "edges (graph (fst (normalizeTechTreeEdges t))) = fold push_step (edges (graph t)) []"
  by (simp add: normalizeTechTreeEdges_def Let_def)

lemma normalize_nodes:
  "nodes (graph (fst (normalizeTechTreeEdges t))) = nodes (graph t)"
  by (simp add: normalizeTechTreeEdges_def Let_def)

lemma normalize_count:
  "snd (normalizeTechTreeEdges t) = fold count_step (edges (graph t)) 0"
  by (simp add: normalizeTechTreeEdges_def Let_def)

lemma fold_count_step: "fold count_step es c = c + sum_list (map (\<lambda>e. count_step e 0) es)"
proof (induction es arbitrary: c)
  case Nil
  show ?case by simp
next
  case (Cons e es)
  have "count_step e c = c + count_step e 0"
    by (simp add: count_step_def split: option.splits)
  with Cons show ?case by simp
qed

lemma fold_push: "fold (\<lambda>t acc. acc @ [f t]) ts acc = acc @ map f ts"
  by (induction ts arbitrary: acc) simp_all

lemma length_push_step:
  "length (push_step e acc) = length acc + (if no_source e then 0 else count_step e 0)"
  by (simp add: push_step_def no_source_def count_step_def fold_push split: option.splits)

lemma length_fold_push_step:
  "length (fold push_step es acc)
     = length acc + sum_list (map (\<lambda>e. if no_source e then 0 else count_step e 0) es)"
  by (induction es arbitrary: acc) (simp_all add: length_push_step)

lemma sum_list_split_filter:
  "sum_list (map f es)
     = sum_list (map (\<lambda>e. if P e then 0 else f e) es) + sum_list (map f (filter P es))"
  for f :: "'a \<Rightarrow> nat"
  by (induction es) simp_all

lemma ex_records_eval:
  "fold push_step ex_records []
     = [make_edge ''a'' ''b'', make_edge ''b'' ''c'', make_edge ''c'' ''d'',
        make_edge ''d'' ''e'', make_edge ''d'' ''f'', make_edge ''d'' ''g'']"
  by (simp add: ex_records_def push_step_def)

lemma ex_records_sourceless_eval:
  "fold push_step ex_records_sourceless [] = fold push_step ex_records []"
  by (simp add: ex_records_sourceless_def push_step_def)

text \<open>
  C1, as the code has it. The expected count is taken over all records, the edges are
  emitted only for records with a source. So the expected count is the number of emitted
  edges plus what the records without a source contribute (1 for one with a target, the
  number of targets for one with a target list); the two agree when every record has a
  non-empty source.
\<close>

theorem expected_count_vs_emitted:
  "snd (normalizeTechTreeEdges t)
     = length (edges (graph (fst (normalizeTechTreeEdges t))))
       + sum_list (map (\<lambda>e. count_step e 0) (filter no_source (edges (graph t))))
   \<and> ((\<forall>e \<in> set (edges (graph t)). \<not> no_source e) \<longrightarrow>
        snd (normalizeTechTreeEdges t) = length (edges (graph (fst (normalizeTechTreeEdges t)))))"
proof -
  have "snd (normalizeTechTreeEdges t) = sum_list (map (\<lambda>e. count_step e 0) (edges (graph t)))"
    by (simp add: normalize_count fold_count_step)
  moreover have "length (edges (graph (fst (normalizeTechTreeEdges t))))
      = sum_list (map (\<lambda>e. if no_source e then 0 else count_step e 0) (edges (graph t)))"
    by (simp add: normalize_edges length_fold_push_step)
  ultimately have eq: "snd (normalizeTechTreeEdges t)
     = length (edges (graph (fst (normalizeTechTreeEdges t))))
       + sum_list (map (\<lambda>e. count_step e 0) (filter no_source (edges (graph t))))"
    using sum_list_split_filter[of "\<lambda>e. count_step e 0" "edges (graph t)" no_source]
    by simp
  have "filter no_source (edges (graph t)) = []"
    if "\<forall>e \<in> set (edges (graph t)). \<not> no_source e"
    using that by (simp add: filter_empty_conv)
  then show ?thesis using eq by simp
qed

theorem expected_count_vs_emitted_witness:
  "snd (normalizeTechTreeEdges \<lparr>graph = \<lparr>nodes = [], edges = ex_records\<rparr>\<rparr>) = 6
   \<and> length (edges (graph (fst (normalizeTechTreeEdges
        \<lparr>graph = \<lparr>nodes = [], edges = ex_records\<rparr>\<rparr>)))) = 6
   \<and> snd (normalizeTechTreeEdges \<lparr>graph = \<lparr>nodes = [], edges = ex_records_sourceless\<rparr>\<rparr>) = 6 + 2
   \<and> length (edges (graph (fst (normalizeTechTreeEdges
        \<lparr>graph = \<lparr>nodes = [], edges = ex_records_sourceless\<rparr>\<rparr>)))) = 6"
proof -
  have a: "filter no_source ex_records = []"
    by (simp add: ex_records_def no_source_def)
  have b: "filter no_source ex_records_sourceless
          = [\<lparr>raw_source = None, raw_target = None, raw_targets = Some [''x'', ''y'']\<rparr>]"
    by (simp add: ex_records_sourceless_def ex_records_def no_source_def)
  have c: "length (edges (graph (fst (normalizeTechTreeEdges
      \<lparr>graph = \<lparr>nodes = [], edges = ex_records\<rparr>\<rparr>)))) = 6"
    by (simp add: normalize_edges ex_records_eval)
  have d: "length (edges (graph (fst (normalizeTechTreeEdges
      \<lparr>graph = \<lparr>nodes = [], edges = ex_records_sourceless\<rparr>\<rparr>)))) = 6"
    by (simp add: normalize_edges ex_records_sourceless_eval ex_records_eval)
  show ?thesis
    using expected_count_vs_emitted [of "\<lparr>graph = \<lparr>nodes = [], edges = ex_records\<rparr>\<rparr>"]
      expected_count_vs_emitted [of "\<lparr>graph = \<lparr>nodes = [], edges = ex_records_sourceless\<rparr>\<rparr>"]
    by (simp add: a b c d count_step_def)
qed

theorem expected_count_counterexample:
  "snd (normalizeTechTreeEdges
          \<lparr>graph = \<lparr>nodes = [],
                    edges = [\<lparr>raw_source = None, raw_target = Some ''b'', raw_targets = None\<rparr>]\<rparr>\<rparr>)
     \<noteq> length (edges (graph (fst (normalizeTechTreeEdges
          \<lparr>graph = \<lparr>nodes = [],
                    edges = [\<lparr>raw_source = None, raw_target = Some ''b'', raw_targets = None\<rparr>]\<rparr>\<rparr>))))"
  by (simp add: normalizeTechTreeEdges_def count_step_def push_step_def)

lemma push_step_listed:
  "push_step e acc = acc @ map (\<lambda>p. make_edge (fst p) (snd p)) (listed_pairs e)"
  by (simp add: push_step_def listed_pairs_def fold_push comp_def split: option.splits)

lemma fold_push_step_listed:
  "fold push_step es acc
     = acc @ map (\<lambda>p. make_edge (fst p) (snd p)) (concat (map listed_pairs es))"
  by (induction es arbitrary: acc) (simp_all add: push_step_listed)

lemma make_edge_sel [simp]:
  "source (make_edge s t) = s" "target (make_edge s t) = t"
  "edge_id (make_edge s t) = ''edge_src_'' @ s @ ''_tgt_'' @ t"
  by (simp_all add: make_edge_def)

lemma ex_parallel_eval:
  "edges (graph (fst (normalizeTechTreeEdges \<lparr>graph = \<lparr>nodes = [], edges = ex_parallel\<rparr>\<rparr>)))
     = [make_edge ''a'' ''b'', make_edge ''a'' ''b'', make_edge ''a'' ''c'']"
  by (simp add: normalize_edges ex_parallel_def push_step_def)

text \<open>
  C5, as the code has it. The normaliser removes nothing: the emitted edges are, in input
  order, one for every pair listed by a record with a source, so a pair listed twice is
  emitted twice. Every emitted edge carries the identifier built from its own source and
  target, so two emitted edges with the same ordered pair are equal, identifier included;
  and the emitted ordered pairs are pairwise distinct exactly when the records list no pair
  twice.
\<close>

theorem normalized_edges_not_deduplicated:
  "map (\<lambda>e. (source e, target e)) (edges (graph (fst (normalizeTechTreeEdges t))))
     = concat (map listed_pairs (edges (graph t)))
   \<and> (\<forall>e \<in> set (edges (graph (fst (normalizeTechTreeEdges t)))).
         edge_id e = ''edge_src_'' @ source e @ ''_tgt_'' @ target e)
   \<and> (\<forall>e \<in> set (edges (graph (fst (normalizeTechTreeEdges t)))).
       \<forall>e' \<in> set (edges (graph (fst (normalizeTechTreeEdges t)))).
         source e = source e' \<and> target e = target e' \<longrightarrow> e = e')
   \<and> (distinct (map (\<lambda>e. (source e, target e)) (edges (graph (fst (normalizeTechTreeEdges t)))))
        \<longleftrightarrow> distinct (concat (map listed_pairs (edges (graph t)))))"
proof -
  let ?out = "edges (graph (fst (normalizeTechTreeEdges t)))"
  let ?ps = "concat (map listed_pairs (edges (graph t)))"
  have out: "?out = map (\<lambda>p. make_edge (fst p) (snd p)) ?ps"
    by (simp add: normalize_edges fold_push_step_listed)
  have pairs: "map (\<lambda>e. (source e, target e)) ?out = ?ps"
    unfolding out by (simp add: comp_def)
  have ids: "\<forall>e \<in> set ?out. e = make_edge (source e) (target e)"
    unfolding out by auto
  have "\<forall>e \<in> set ?out. edge_id e = ''edge_src_'' @ source e @ ''_tgt_'' @ target e"
  proof
    fix e assume "e \<in> set ?out"
    with ids have "e = make_edge (source e) (target e)" by blast
    then have "edge_id e = edge_id (make_edge (source e) (target e))" by simp
    then show "edge_id e = ''edge_src_'' @ source e @ ''_tgt_'' @ target e" by simp
  qed
  moreover have "\<forall>e \<in> set ?out. \<forall>e' \<in> set ?out.
      source e = source e' \<and> target e = target e' \<longrightarrow> e = e'"
    using ids by metis
  ultimately show ?thesis using pairs by simp
qed

theorem normalized_edges_not_deduplicated_witness:
  "map (\<lambda>e. (source e, target e))
      (edges (graph (fst (normalizeTechTreeEdges \<lparr>graph = \<lparr>nodes = [], edges = ex_parallel\<rparr>\<rparr>))))
     = [(''a'', ''b''), (''a'', ''b''), (''a'', ''c'')]
   \<and> map edge_id
      (edges (graph (fst (normalizeTechTreeEdges \<lparr>graph = \<lparr>nodes = [], edges = ex_parallel\<rparr>\<rparr>))))
     = [''edge_src_a_tgt_b'', ''edge_src_a_tgt_b'', ''edge_src_a_tgt_c'']"
proof -
  have "concat (map listed_pairs ex_parallel) = [(''a'', ''b''), (''a'', ''b''), (''a'', ''c'')]"
    by (simp add: ex_parallel_def listed_pairs_def)
  then show ?thesis
    using normalized_edges_not_deduplicated
            [of "\<lparr>graph = \<lparr>nodes = [], edges = ex_parallel\<rparr>\<rparr>"]
    by (simp add: ex_parallel_eval)
qed

theorem parallel_edges_counterexample:
  "\<not> distinct (map edge_id
        (edges (graph (fst (normalizeTechTreeEdges \<lparr>graph = \<lparr>nodes = [], edges = ex_parallel\<rparr>\<rparr>)))))
   \<and> \<not> distinct
        (edges (graph (fst (normalizeTechTreeEdges \<lparr>graph = \<lparr>nodes = [], edges = ex_parallel\<rparr>\<rparr>))))"
  by (simp add: ex_parallel_eval)

section \<open>Properties of node normalisation and of the seeding run\<close>

lemma normalizeNode_fields [simp]:
  "node_id (normalizeNode n) = node_id n"
  "references (normalizeNode n) = references n"
  "label (normalizeNode n) = label n"
  "node_type (normalizeNode n) = node_type n"
  "category (normalizeNode n) = category n"
  "description (normalizeNode n) = description n"
  "extra (normalizeNode n) = extra n"
  by (simp_all add: normalizeNode_def Let_def)

lemma normalizeNode_trl_current:
  "trl_current (normalizeNode n) = Some (TrlString (toSingleTrl (trl_current n) (Some ''1'')))"
  by (simp add: normalizeNode_def Let_def)

lemma normalizeNode_trl_projected:
  "trl_projected_5_10_years (normalizeNode n)
     = (case trl_projected_5_10_years n of
          None \<Rightarrow> None
        | Some v \<Rightarrow> Some (TrlString (toSingleTrl (Some v) None)))"
  by (simp add: normalizeNode_def Let_def split: option.splits)

text \<open>
  C4. \<open>normalizeNodes\<close> keeps the number and order of the nodes. Every normalised node has
  \<^verbatim>\<open>trl_current\<close> set, to the normalised value of the raw field (the default \<^verbatim>\<open>"1"\<close> when
  the key is absent). A node without the key \<^verbatim>\<open>trl_projected_5_10_years\<close> is still without
  it afterwards; a node with the key has it normalised.
\<close>

theorem normalizeNodes_trl_fields:
  "i < length ns \<Longrightarrow>
     length (fst (normalizeNodes ns)) = length ns
     \<and> trl_current (fst (normalizeNodes ns) ! i)
          = Some (TrlString (toSingleTrl (trl_current (ns ! i)) (Some ''1'')))
     \<and> (trl_projected_5_10_years (ns ! i) = None \<longrightarrow>
          trl_projected_5_10_years (fst (normalizeNodes ns) ! i) = None)
     \<and> (\<forall>v. trl_projected_5_10_years (ns ! i) = Some v \<longrightarrow>
          trl_projected_5_10_years (fst (normalizeNodes ns) ! i)
            = Some (TrlString (toSingleTrl (Some v) None)))"
  by (simp add: normalizeNodes_def normalizeNode_trl_current normalizeNode_trl_projected)

theorem normalizeNodes_trl_fields_witness:
  "trl_current (fst (normalizeNodes ex_nodes) ! 0) = Some (TrlString ''7'')
   \<and> trl_projected_5_10_years (fst (normalizeNodes ex_nodes) ! 0) = Some (TrlString ''8'')
   \<and> trl_current (fst (normalizeNodes ex_nodes) ! Suc 0) = Some (TrlString ''1'')
   \<and> trl_projected_5_10_years (fst (normalizeNodes ex_nodes) ! Suc 0) = None"
proof -
  have t: "toSingleTrl (Some (TrlString ''7-9 (LWRs); 4-6'')) (Some ''1'') = ''7''"
      "toSingleTrl None (Some ''1'') = ''1''"
      "toSingleTrl (Some (TrlNumber ''8'')) None = ''8''"
    by (simp_all add: toSingleTrl_def is_digit_def)
  have n: "trl_current (ex_nodes ! 0) = Some (TrlString ''7-9 (LWRs); 4-6'')"
      "trl_projected_5_10_years (ex_nodes ! 0) = Some (TrlNumber ''8'')"
      "trl_current (ex_nodes ! Suc 0) = None"
      "trl_projected_5_10_years (ex_nodes ! Suc 0) = None"
      "length ex_nodes = 2"
    by (simp_all add: ex_nodes_def)
  show ?thesis
    using normalizeNodes_trl_fields [of 0 ex_nodes] normalizeNodes_trl_fields [of "Suc 0" ex_nodes]
    by (simp add: n t)
qed

lemma runReferenceSanityCheck_normalized:
  "runReferenceSanityCheck (map normalizeNode ns)
     = (if \<exists>n \<in> set ns. missing_references n
        then Inl (ReferenceSanityCheckFailed (map node_id (filter missing_references ns)))
        else Inr ())"
proof -
  have p: "(\<lambda>n. case references n of None \<Rightarrow> True | Some rs \<Rightarrow> length rs = 0) = missing_references"
    by (auto simp: missing_references_def fun_eq_iff split: option.splits)
  have m: "missing_references \<circ> normalizeNode = missing_references"
    by (simp add: missing_references_def fun_eq_iff)
  have f: "filter missing_references (map normalizeNode ns)
            = map normalizeNode (filter missing_references ns)"
    by (simp add: filter_map m)
  show ?thesis
    by (simp add: runReferenceSanityCheck_def p f comp_def filter_empty_conv)
qed

lemma normalize_edges_nodes_irrelevant:
  "edges (graph (fst (normalizeTechTreeEdges \<lparr>graph = \<lparr>nodes = ns, edges = es\<rparr>\<rparr>)))
     = fold push_step es []"
  "snd (normalizeTechTreeEdges \<lparr>graph = \<lparr>nodes = ns, edges = es\<rparr>\<rparr>) = fold count_step es 0"
  "nodes (graph (fst (normalizeTechTreeEdges \<lparr>graph = \<lparr>nodes = ns, edges = es\<rparr>\<rparr>))) = ns"
  by (simp_all add: normalize_edges normalize_count normalize_nodes)

lemma main_Parsed:
  assumes "json_file env = Parsed t"
  shows "main env =
     (let finalNodes = map normalizeNode (nodes (graph t));
          finalEdges = fold push_step (edges (graph t)) [];
          expectedEdgeCount = fold count_step (edges (graph t)) 0;
          w = Some (runIdConsistencyCheck finalNodes finalEdges)
      in if length finalEdges \<noteq> expectedEdgeCount
         then abort (EdgeSanityCheckFailed expectedEdgeCount (length finalEdges)) None
         else if \<exists>n \<in> set (nodes (graph t)). missing_references n
         then abort (ReferenceSanityCheckFailed
                (map node_id (filter missing_references (nodes (graph t))))) None
         else if MONGODB_URI env = None \<or> MONGODB_URI env = Some [] then abort MongoUriNotSet w
         else if \<not> uri_accepted env then abort InvalidMongoUri w
         else \<lparr>thrown = (if rejects env Close then Some ClientCloseFailed else None),
               exitCode =
                 (if snd (await_calls (rejects env) (seed_calls finalNodes finalEdges))
                  then Some 1 else None),
               issued = fst (await_calls (rejects env) (seed_calls finalNodes finalEdges)) @ [Close],
               id_warnings = w\<rparr>)"
  using assms
  by (simp add: main_def Let_def normalizeNodes_def split_beta normalize_edges_nodes_irrelevant
      runEdgeSanityCheck_def runReferenceSanityCheck_normalized split: option.splits)

lemma writes_abort [simp]: "writes (abort e w) = []" "issued (abort e w) = []"
  "thrown (abort e w) = Some e"
  by (simp_all add: writes_def abort_def)

lemma await_calls_no_reject: "(\<forall>c. \<not> rej c) \<Longrightarrow> await_calls rej cs = (cs, False)"
  by (induction cs) simp_all

lemma writes_seed_calls:
  "filter is_write (seed_calls ns es)
     = [DeleteManyNodes, DeleteManyEdges]
       @ (if ns = [] then [] else [InsertManyNodes ns])
       @ (if es = [] then [] else [InsertManyEdges es])"
  by (simp add: seed_calls_def)

text \<open>
  C3. For a run on a parsed source: when the emitted edge count differs from the expected
  count, \<open>main\<close> throws the edge-count error; when a node has no reference list or an empty
  one, it throws too (the reference error with the offending identifiers, when the counts
  agree); in both cases no client call is issued, so nothing is written. When neither
  holds, the connection string is set and accepted and no client call rejects, the run
  deletes both collections and inserts the normalised nodes and edges, whatever the ID
  consistency check found: its two lists (edge endpoints that are no node, nodes no edge
  touches) are only reported. For every run, an error thrown by \<open>main\<close>, other than the
  failure to close the client at the end, is thrown before any client call.
\<close>

theorem fatal_findings_precede_writes:
  "(json_file env = Parsed t \<longrightarrow>
     (snd (normalizeTechTreeEdges t) \<noteq> length (edges (graph (fst (normalizeTechTreeEdges t)))) \<longrightarrow>
        thrown (main env)
          = Some (EdgeSanityCheckFailed (snd (normalizeTechTreeEdges t))
                    (length (edges (graph (fst (normalizeTechTreeEdges t))))))
        \<and> issued (main env) = [] \<and> writes (main env) = [])
     \<and> ((\<exists>n \<in> set (nodes (graph t)). missing_references n) \<longrightarrow>
        (\<exists>e. thrown (main env) = Some e) \<and> issued (main env) = [] \<and> writes (main env) = [])
     \<and> (snd (normalizeTechTreeEdges t) = length (edges (graph (fst (normalizeTechTreeEdges t))))
        \<and> (\<exists>n \<in> set (nodes (graph t)). missing_references n) \<longrightarrow>
        thrown (main env)
          = Some (ReferenceSanityCheckFailed
                    (map node_id (filter missing_references (nodes (graph t))))))
     \<and> (snd (normalizeTechTreeEdges t) = length (edges (graph (fst (normalizeTechTreeEdges t))))
        \<and> \<not> (\<exists>n \<in> set (nodes (graph t)). missing_references n)
        \<and> MONGODB_URI env = Some uri \<and> uri \<noteq> [] \<and> uri_accepted env
        \<and> (\<forall>c. \<not> rejects env c) \<longrightarrow>
        thrown (main env) = None
        \<and> id_warnings (main env)
            = Some (runIdConsistencyCheck (map normalizeNode (nodes (graph t)))
                      (edges (graph (fst (normalizeTechTreeEdges t)))))
        \<and> writes (main env)
            = [DeleteManyNodes, DeleteManyEdges]
              @ (if nodes (graph t) = [] then []
                 else [InsertManyNodes (map normalizeNode (nodes (graph t)))])
              @ (if edges (graph (fst (normalizeTechTreeEdges t))) = [] then []
                 else [InsertManyEdges (edges (graph (fst (normalizeTechTreeEdges t))))])))
   \<and> (thrown (main env) \<noteq> None \<and> thrown (main env) \<noteq> Some ClientCloseFailed \<longrightarrow>
        issued (main env) = [] \<and> writes (main env) = [])"
proof -
  have c1: "thrown (main env)
          = Some (EdgeSanityCheckFailed (snd (normalizeTechTreeEdges t))
                    (length (edges (graph (fst (normalizeTechTreeEdges t))))))
        \<and> issued (main env) = [] \<and> writes (main env) = []"
    if "json_file env = Parsed t"
      "snd (normalizeTechTreeEdges t) \<noteq> length (edges (graph (fst (normalizeTechTreeEdges t))))"
    using that(2) by (simp add: main_Parsed[OF that(1)] Let_def normalize_edges normalize_count)
  have c2: "(\<exists>e. thrown (main env) = Some e) \<and> issued (main env) = [] \<and> writes (main env) = []"
    if "json_file env = Parsed t" "\<exists>n \<in> set (nodes (graph t)). missing_references n"
    using that(2) by (simp add: main_Parsed[OF that(1)] Let_def)
  have c3: "thrown (main env)
          = Some (ReferenceSanityCheckFailed
                    (map node_id (filter missing_references (nodes (graph t)))))"
    if "json_file env = Parsed t"
      "snd (normalizeTechTreeEdges t) = length (edges (graph (fst (normalizeTechTreeEdges t))))"
      "\<exists>n \<in> set (nodes (graph t)). missing_references n"
    using that(2,3) by (simp add: main_Parsed[OF that(1)] Let_def normalize_edges normalize_count)
  have c4: "thrown (main env) = None
        \<and> id_warnings (main env)
            = Some (runIdConsistencyCheck (map normalizeNode (nodes (graph t)))
                      (edges (graph (fst (normalizeTechTreeEdges t)))))
        \<and> writes (main env)
            = [DeleteManyNodes, DeleteManyEdges]
              @ (if nodes (graph t) = [] then []
                 else [InsertManyNodes (map normalizeNode (nodes (graph t)))])
              @ (if edges (graph (fst (normalizeTechTreeEdges t))) = [] then []
                 else [InsertManyEdges (edges (graph (fst (normalizeTechTreeEdges t))))])"
    if "json_file env = Parsed t"
      "snd (normalizeTechTreeEdges t) = length (edges (graph (fst (normalizeTechTreeEdges t))))"
      "\<not> (\<exists>n \<in> set (nodes (graph t)). missing_references n)"
      "MONGODB_URI env = Some uri" "uri \<noteq> []" "uri_accepted env" "\<forall>c. \<not> rejects env c"
    using that(2-)
    by (simp add: main_Parsed[OF that(1)] Let_def normalize_edges normalize_count writes_def
        await_calls_no_reject writes_seed_calls)
  have c5: "issued (main env) = [] \<and> writes (main env) = []"
    if "thrown (main env) \<noteq> None" "thrown (main env) \<noteq> Some ClientCloseFailed"
  proof (cases "json_file env")
    case Missing
    then show ?thesis by (simp add: main_def)
  next
    case Malformed
    then show ?thesis by (simp add: main_def)
  next
    case (Parsed t')
    from that show ?thesis
      by (auto simp: main_Parsed[OF Parsed] Let_def writes_def split: if_splits)
  qed
  show ?thesis using c1 c2 c3 c4 c5 by blast
qed

theorem fatal_findings_precede_writes_witness:
  "writes (main (ex_env ex_tree_no_refs)) = []
   \<and> thrown (main (ex_env ex_tree_no_refs)) = Some (ReferenceSanityCheckFailed [''B'', ''C''])
   \<and> writes (main (ex_env ex_tree_no_source)) = []
   \<and> thrown (main (ex_env ex_tree_no_source)) = Some (EdgeSanityCheckFailed 1 0)
   \<and> id_warnings (main (ex_env ex_tree)) = Some ([''Z''], [''C''])
   \<and> thrown (main (ex_env ex_tree)) = None
   \<and> writes (main (ex_env ex_tree))
       = [DeleteManyNodes, DeleteManyEdges,
          InsertManyNodes (map normalizeNode (nodes (graph ex_tree))),
          InsertManyEdges [make_edge ''A'' ''B'', make_edge ''A'' ''Z'']]"
proof -
  have j: "json_file (ex_env t) = Parsed t" "MONGODB_URI (ex_env t) = Some ''mongodb://db''"
    "uri_accepted (ex_env t)" "\<forall>c. \<not> rejects (ex_env t) c" for t
    by (simp_all add: ex_env_def)
  have e1: "edges (graph (fst (normalizeTechTreeEdges ex_tree_no_refs))) = [make_edge ''A'' ''B'']"
      "snd (normalizeTechTreeEdges ex_tree_no_refs) = 1"
      "filter missing_references (nodes (graph ex_tree_no_refs))
         = [ex_node ''B'' (Some []), ex_node ''C'' None]"
    by (simp_all add: ex_tree_no_refs_def normalize_edges normalize_count push_step_def
        count_step_def missing_references_def ex_node_def)
  have e2: "edges (graph (fst (normalizeTechTreeEdges ex_tree_no_source))) = []"
      "snd (normalizeTechTreeEdges ex_tree_no_source) = 1"
    by (simp_all add: ex_tree_no_source_def normalize_edges normalize_count push_step_def
        count_step_def)
  have e3: "edges (graph (fst (normalizeTechTreeEdges ex_tree)))
         = [make_edge ''A'' ''B'', make_edge ''A'' ''Z'']"
      "snd (normalizeTechTreeEdges ex_tree) = 2"
      "filter missing_references (nodes (graph ex_tree)) = []"
      "nodes (graph ex_tree) \<noteq> []"
    by (simp_all add: ex_tree_def normalize_edges normalize_count push_step_def
        count_step_def missing_references_def ex_node_def)
  have e4: "runIdConsistencyCheck (map normalizeNode (nodes (graph ex_tree)))
        [make_edge ''A'' ''B'', make_edge ''A'' ''Z''] = ([''Z''], [''C''])"
    by (simp add: runIdConsistencyCheck_def ex_tree_def ex_node_def set_add_def)
  have "\<exists>n \<in> set (nodes (graph ex_tree_no_refs)). missing_references n"
    by (simp add: ex_tree_no_refs_def ex_node_def missing_references_def)
  with fatal_findings_precede_writes [of "ex_env ex_tree_no_refs" ex_tree_no_refs]
  have r1: "writes (main (ex_env ex_tree_no_refs)) = []"
    "thrown (main (ex_env ex_tree_no_refs)) = Some (ReferenceSanityCheckFailed [''B'', ''C''])"
    by (simp_all add: e1 j ex_node_def)
  from fatal_findings_precede_writes [of "ex_env ex_tree_no_source" ex_tree_no_source]
  have r2: "writes (main (ex_env ex_tree_no_source)) = []"
    "thrown (main (ex_env ex_tree_no_source)) = Some (EdgeSanityCheckFailed 1 0)"
    by (simp_all add: e2 j)
  have "\<not> (\<exists>n \<in> set (nodes (graph ex_tree)). missing_references n)"
    using e3(3) by (simp add: filter_empty_conv)
  with fatal_findings_precede_writes [of "ex_env ex_tree" ex_tree "''mongodb://db''"]
  have r3: "id_warnings (main (ex_env ex_tree)) = Some ([''Z''], [''C''])"
    "thrown (main (ex_env ex_tree)) = None"
    "writes (main (ex_env ex_tree))
       = [DeleteManyNodes, DeleteManyEdges,
          InsertManyNodes (map normalizeNode (nodes (graph ex_tree))),
          InsertManyEdges [make_edge ''A'' ''B'', make_edge ''A'' ''Z'']]"
    by (simp_all add: e3 e4 j)
  show ?thesis using r1 r2 r3 by simp
qed

section \<open>Properties of the tech tree component\<close>

lemma set_set_add [simp]: "set (set_add x s) = insert x (set s)"
  by (auto simp: set_add_def)

lemma distinct_set_add [simp]: "distinct (set_add x s) = distinct s"
  by (simp add: set_add_def)

lemma connect_step_nodeIds:
  "set (nodeIds (connect_step a e acc))
     = set (nodeIds acc) \<union> (if source e = a then {target e} else {})
       \<union> (if target e = a then {source e} else {})"
  by (auto simp: connect_step_def Let_def)

lemma connect_step_edgeIds:
  "set (edgeIds (connect_step a e acc))
     = set (edgeIds acc) \<union> (if source e = a \<or> target e = a then {edge_id e} else {})"
  by (auto simp: connect_step_def Let_def)

lemma connect_step_distinct:
  "distinct (nodeIds (connect_step a e acc)) = distinct (nodeIds acc)"
  "distinct (edgeIds (connect_step a e acc)) = distinct (edgeIds acc)"
  by (simp_all add: connect_step_def Let_def)

lemma fold_connect_nodeIds:
  "set (nodeIds (fold (connect_step a) es acc))
     = set (nodeIds acc) \<union> {target e |e. e \<in> set es \<and> source e = a}
       \<union> {source e |e. e \<in> set es \<and> target e = a}"
proof (induction es arbitrary: acc)
  case Nil
  show ?case by simp
next
  case (Cons e es)
  show ?case
    unfolding fold_Cons comp_def Cons.IH connect_step_nodeIds by auto
qed

lemma fold_connect_edgeIds:
  "set (edgeIds (fold (connect_step a) es acc))
     = set (edgeIds acc) \<union> {edge_id e |e. e \<in> set es \<and> (source e = a \<or> target e = a)}"
proof (induction es arbitrary: acc)
  case Nil
  show ?case by simp
next
  case (Cons e es)
  show ?case
    unfolding fold_Cons comp_def Cons.IH connect_step_edgeIds by auto
qed

lemma fold_connect_distinct:
  "distinct (nodeIds (fold (connect_step a) es acc)) = distinct (nodeIds acc)"
  "distinct (edgeIds (fold (connect_step a) es acc)) = distinct (edgeIds acc)"
  by (induction es arbitrary: acc) (simp_all add: connect_step_distinct)

lemma fold_connect_untouched:
  "(\<forall>e \<in> set es. source e \<noteq> a \<and> target e \<noteq> a) \<Longrightarrow> fold (connect_step a) es acc = acc"
  by (induction es arbitrary: acc) (simp_all add: connect_step_def)

lemma Collect_image_filter: "{f e |e. e \<in> set es \<and> P e} = set (map f (filter P es))"
  by auto

text \<open>
  C7. \<open>findConnectedElements\<close> returns, as sets without repetition, the anchor together
  with the target of every edge that leaves it and the source of every edge that enters
  it, and the identifiers of exactly the edges that have the anchor as source or target.
  Nothing is followed further than one edge; an anchor that no edge touches gives the
  anchor alone and no edge.
\<close>

theorem findConnectedElements_one_hop:
  "set (nodeIds (findConnectedElements a es))
     = {a} \<union> {target e |e. e \<in> set es \<and> source e = a}
       \<union> {source e |e. e \<in> set es \<and> target e = a}
   \<and> set (edgeIds (findConnectedElements a es))
     = {edge_id e |e. e \<in> set es \<and> (source e = a \<or> target e = a)}
   \<and> distinct (nodeIds (findConnectedElements a es))
   \<and> distinct (edgeIds (findConnectedElements a es))
   \<and> ((\<forall>e \<in> set es. source e \<noteq> a \<and> target e \<noteq> a) \<longrightarrow>
        findConnectedElements a es = \<lparr>nodeIds = [a], edgeIds = []\<rparr>)"
  by (simp add: findConnectedElements_def fold_connect_nodeIds fold_connect_edgeIds
      fold_connect_distinct fold_connect_untouched set_add_def)

theorem findConnectedElements_one_hop_witness:
  "set (nodeIds (findConnectedElements ''X'' ex_edges)) = {''X'', ''Y'', ''Z''}
   \<and> set (edgeIds (findConnectedElements ''X'' ex_edges)) = {''e1'', ''e2''}
   \<and> findConnectedElements ''W'' ex_edges = \<lparr>nodeIds = [''W''], edgeIds = []\<rparr>"
proof -
  have a: "{target e |e. e \<in> set ex_edges \<and> source e = ''X''} = {''Y''}"
    "{source e |e. e \<in> set ex_edges \<and> target e = ''X''} = {''Z''}"
    "{edge_id e |e. e \<in> set ex_edges \<and> (source e = ''X'' \<or> target e = ''X'')} = {''e1'', ''e2''}"
    unfolding Collect_image_filter by (simp_all add: ex_edges_def insert_commute)
  have b: "\<forall>e \<in> set ex_edges. source e \<noteq> ''W'' \<and> target e \<noteq> ''W''"
    by (simp add: ex_edges_def)
  show ?thesis
    using findConnectedElements_one_hop [of "''X''" ex_edges]
      findConnectedElements_one_hop [of "''W''" ex_edges] b
    by (auto simp: a)
qed

text \<open>
  C6. The component spells the sentinel for "no category filter" \<^verbatim>\<open>'All'\<close>: for it the
  graph is passed on as it is. For every other selected category the filter keeps exactly
  the nodes of that category, and exactly the edges whose source and target are both
  identifiers of kept nodes; an edge with an endpoint outside the category is dropped.
\<close>

theorem filteredTechTree_induced_subgraph:
  "filteredTechTree ''All'' g = g
   \<and> (c \<noteq> ''All'' \<longrightarrow>
     nodes (filteredTechTree c g)
       = filter (\<lambda>n. data_category n = Some c) (nodes g)
     \<and> edges (filteredTechTree c g)
       = filter (\<lambda>e. source e \<in> ui_id ` set (nodes (filteredTechTree c g))
                    \<and> target e \<in> ui_id ` set (nodes (filteredTechTree c g)))
           (edges g))"
proof -
  have all: "filteredTechTree ''All'' g = g"
    by (simp add: filteredTechTree_def)
  have n: "nodes (filteredTechTree c g) = filter (\<lambda>n. data_category n = Some c) (nodes g)"
    if "c \<noteq> ''All''"
    using that by (simp add: filteredTechTree_def)
  have ex: "list_ex (\<lambda>n. ui_id n = i \<and> data_category n = Some c) (nodes g)
        \<longleftrightarrow> i \<in> ui_id ` set (filter (\<lambda>n. data_category n = Some c) (nodes g))"
    for i
    by (auto simp: list_ex_iff)
  have e: "edges (filteredTechTree c g)
       = filter (\<lambda>e. source e \<in> ui_id ` set (nodes (filteredTechTree c g))
                    \<and> target e \<in> ui_id ` set (nodes (filteredTechTree c g)))
           (edges g)"
    if "c \<noteq> ''All''"
    unfolding n[OF that] using that by (simp add: filteredTechTree_def Let_def ex)
  show ?thesis using all n e by blast
qed

theorem filteredTechTree_induced_subgraph_witness:
  "map ui_id (nodes (filteredTechTree ''cat1'' ex_graph)) = [''A'', ''B'']
   \<and> edges (filteredTechTree ''cat1'' ex_graph) = []"
proof -
  have "''cat1'' \<noteq> ''All''" by simp
  with filteredTechTree_induced_subgraph [of ex_graph "''cat1''"]
  show ?thesis by (simp add: ex_graph_def)
qed

text \<open>
  C8. Changing the grouping mode clears the selection, the connected-only flag and its
  anchor and both highlight sets, sets the new mode, and leaves the category filter as it
  was. The reset sets the category filter to the sentinel \<^verbatim>\<open>'All'\<close>; the category selector
  sets it to the value chosen; every other handler, and the effect that copies the search
  input, leaves it unchanged.
\<close>

theorem grouping_change_keeps_category:
  "selectedNode (handleGroupingModeChange mode s) = None
   \<and> showOnlyConnected (handleGroupingModeChange mode s) = False
   \<and> showingRelatedNodes (handleGroupingModeChange mode s) = None
   \<and> nodeIds (highlightedElements (handleGroupingModeChange mode s)) = []
   \<and> edgeIds (highlightedElements (handleGroupingModeChange mode s)) = []
   \<and> groupingMode (handleGroupingModeChange mode s) = mode
   \<and> selectedCategory (handleGroupingModeChange mode s) = selectedCategory s
   \<and> selectedCategory (handleReset s) = ''All''
   \<and> selectedCategory (setSelectedCategory c' s) = c'
   \<and> selectedCategory (handleSearchChange v s) = selectedCategory s
   \<and> selectedCategory (syncSearchTerm s) = selectedCategory s
   \<and> selectedCategory (handleShowDetails w i s) = selectedCategory s
   \<and> selectedCategory (handleShowConnected i s) = selectedCategory s
   \<and> selectedCategory (handleEnterEditMode a p s) = selectedCategory s
   \<and> selectedCategory (handleExitEditMode c s) = selectedCategory s"
  by (simp add: handleGroupingModeChange_def handleReset_def handleSearchChange_def
      setSelectedCategory_def syncSearchTerm_def handleShowDetails_def handleShowConnected_def handleEnterEditMode_def
      handleExitEditMode_def no_highlight_def Let_def split: option.splits)

theorem grouping_change_keeps_category_witness:
  "selectedNode ex_selected \<noteq> None
   \<and> nodeIds (highlightedElements ex_selected) \<noteq> []
   \<and> selectedNode (handleGroupingModeChange GroupCategory ex_selected) = None
   \<and> nodeIds (highlightedElements (handleGroupingModeChange GroupCategory ex_selected)) = []
   \<and> edgeIds (highlightedElements (handleGroupingModeChange GroupCategory ex_selected)) = []
   \<and> selectedCategory (handleGroupingModeChange GroupCategory ex_selected) = ''cat1''
   \<and> selectedCategory (handleReset ex_selected) = ''All''"
proof -
  have "selectedNode ex_selected \<noteq> None" "nodeIds (highlightedElements ex_selected) \<noteq> []"
    "selectedCategory ex_selected = ''cat1''"
    by (simp_all add: ex_selected_def ex_state_def handleShowDetails_def findConnectedElements_def
        connect_step_def set_add_def)
  then show ?thesis
    using grouping_change_keeps_category [of GroupCategory ex_selected]
    by simp
qed

text \<open>
  C9, as the code has it. Showing a node's details never changes the search input or the
  search term. When a rendered node has the identifier, the first such node becomes the
  selection and the highlight becomes its one-hop neighbourhood among the rendered edges;
  when none has, the state is unchanged. The handlers that do clear the search are the
  reset, always, and "show connected", when a rendered node has the identifier: both set
  the search input and the search term to the empty string; "show connected" for an
  identifier that no rendered node has changes nothing.
\<close>

theorem show_details_keeps_search:
  "searchTerm (handleShowDetails w nodeId s) = searchTerm s
   \<and> searchInput (handleShowDetails w nodeId s) = searchInput s
   \<and> (find (\<lambda>n. ui_id n = nodeId) (st_nodes s) = Some node \<longrightarrow>
        ui_id node = nodeId
        \<and> selectedNode (handleShowDetails w nodeId s) = Some node
        \<and> highlightedElements (handleShowDetails w nodeId s)
            = findConnectedElements nodeId (st_edges s))
   \<and> (find (\<lambda>n. ui_id n = nodeId) (st_nodes s) = None \<longrightarrow> handleShowDetails w nodeId s = s)
   \<and> searchTerm (handleReset s) = []
   \<and> searchInput (handleReset s) = []
   \<and> (find (\<lambda>n. ui_id n = nodeId) (st_nodes s) = Some node \<longrightarrow>
        searchTerm (handleShowConnected nodeId s) = []
        \<and> searchInput (handleShowConnected nodeId s) = []
        \<and> selectedNode (handleShowConnected nodeId s) = Some node)
   \<and> (find (\<lambda>n. ui_id n = nodeId) (st_nodes s) = None \<longrightarrow> handleShowConnected nodeId s = s)"
proof -
  have "ui_id node = nodeId" if "find (\<lambda>n. ui_id n = nodeId) (st_nodes s) = Some node"
    using that by (auto simp: find_Some_iff)
  then show ?thesis
    by (simp add: handleShowDetails_def handleShowConnected_def handleReset_def Let_def
        split: option.splits)
qed

theorem show_details_keeps_search_witness:
  "searchTerm (handleShowDetails 1024 ''X'' ex_state) = ''fusion''
   \<and> selectedNode (handleShowDetails 1024 ''X'' ex_state)
       = Some \<lparr>ui_id = ''X'', data_category = Some ''cat1''\<rparr>
   \<and> handleShowDetails 1024 ''Q'' ex_state = ex_state
   \<and> searchTerm (handleReset ex_state) = []
   \<and> searchTerm (handleShowConnected ''X'' ex_state) = []
   \<and> searchInput (handleShowConnected ''X'' ex_state) = []
   \<and> searchTerm (handleShowConnected ''Q'' ex_state) = ''fusion''"
proof -
  have "find (\<lambda>n. ui_id n = ''X'') (st_nodes ex_state)
          = Some \<lparr>ui_id = ''X'', data_category = Some ''cat1''\<rparr>"
    "find (\<lambda>n. ui_id n = ''Q'') (st_nodes ex_state) = None"
    "searchTerm ex_state = ''fusion''"
    by (simp_all add: ex_state_def)
  then show ?thesis
    using show_details_keeps_search [of 1024 "''X''" ex_state "\<lparr>ui_id = ''X'', data_category = Some ''cat1''\<rparr>"]
      show_details_keeps_search [of 1024 "''Q''" ex_state]
    by simp
qed

theorem show_details_search_counterexample:
  "searchTerm ex_state = ''fusion''
   \<and> searchTerm (handleShowDetails 1024 ''X'' ex_state) = ''fusion''
   \<and> searchInput (handleShowDetails 1024 ''X'' ex_state) = ''fusion''
   \<and> searchTerm (syncSearchTerm (handleShowDetails 1024 ''X'' ex_state)) = ''fusion''"
  by (simp add: ex_state_def handleShowDetails_def syncSearchTerm_def)

text \<open>
  C10. A change of the search input clears the selection, the connected-only flag, its
  anchor and both highlight sets, and stores the new input; the search term that the
  layout reads still has its old value in that state and takes the new one with the effect
  that follows the render, with selection, flag, anchor and highlight still cleared.
\<close>

theorem search_change_clears_focus:
  "selectedNode (handleSearchChange v s) = None
   \<and> showOnlyConnected (handleSearchChange v s) = False
   \<and> showingRelatedNodes (handleSearchChange v s) = None
   \<and> nodeIds (highlightedElements (handleSearchChange v s)) = []
   \<and> edgeIds (highlightedElements (handleSearchChange v s)) = []
   \<and> searchInput (handleSearchChange v s) = v
   \<and> searchTerm (handleSearchChange v s) = searchTerm s
   \<and> searchTerm (syncSearchTerm (handleSearchChange v s)) = v
   \<and> selectedNode (syncSearchTerm (handleSearchChange v s)) = None
   \<and> showOnlyConnected (syncSearchTerm (handleSearchChange v s)) = False
   \<and> showingRelatedNodes (syncSearchTerm (handleSearchChange v s)) = None
   \<and> highlightedElements (syncSearchTerm (handleSearchChange v s)) = no_highlight"
  by (simp add: handleSearchChange_def syncSearchTerm_def no_highlight_def)

theorem search_change_clears_focus_witness:
  "selectedNode ex_connected \<noteq> None
   \<and> showOnlyConnected ex_connected
   \<and> showingRelatedNodes ex_connected = Some ''X''
   \<and> selectedNode (handleSearchChange ''solar'' ex_connected) = None
   \<and> showOnlyConnected (handleSearchChange ''solar'' ex_connected) = False
   \<and> showingRelatedNodes (handleSearchChange ''solar'' ex_connected) = None
   \<and> searchTerm (handleSearchChange ''solar'' ex_connected) = []
   \<and> searchTerm (syncSearchTerm (handleSearchChange ''solar'' ex_connected)) = ''solar''"
proof -
  have "selectedNode ex_connected \<noteq> None" "showOnlyConnected ex_connected"
    "showingRelatedNodes ex_connected = Some ''X''" "searchTerm ex_connected = []"
    by (simp_all add: ex_connected_def ex_state_def handleShowDetails_def handleShowConnected_def)
  then show ?thesis
    using search_change_clears_focus [of "''solar''" ex_connected]
    by simp
qed

end
